theory Spec2Isabelle
  imports Complex_Main
begin

section \<open>Python values\<close>

text \<open>
  The handler of \<^verbatim>\<open>src/backend/lambda_function.py\<close> works on values that come out of
  \<^verbatim>\<open>json.loads\<close>: dictionaries with string keys, lists, strings, integers, floats,
  booleans and \<^verbatim>\<open>None\<close>.  A Python string is a HOL string whose characters are the
  code points below 256.  A dictionary is the list of its items in insertion order;
  \<open>map_of\<close> is the lookup.

  A float is kept as the exact value of its decimal literal (the rounding to binary64
  is not part of the model), or as one of the three special values.
\<close>

datatype pyfloat = FloatVal rat | FloatInf bool | FloatNaN

datatype json =
    JNull
  | JBool bool
  | JInt int
  | JFloat pyfloat
  | JStr string
  | JArr "json list"
  | JObj "(string \<times> json) list"

text \<open>
  Exceptions are values.  Only the class matters to the code: the \<^verbatim>\<open>except\<close> clauses
  of the handler select on \<^verbatim>\<open>json.JSONDecodeError\<close> and on \<^verbatim>\<open>Exception\<close>.
  \<open>ExternalError\<close> stands for any other exception class (the classes of botocore,
  for instance), named by a string.
\<close>

datatype exn =
    JSONDecodeError
  | ValueError
  | KeyError
  | IndexError
  | TypeError
  | AttributeError
  | ExternalError string

text \<open>Sequencing of computations that may raise: the first exception wins.\<close>

definition bind_exn :: "exn + 'a \<Rightarrow> ('a \<Rightarrow> exn + 'b) \<Rightarrow> exn + 'b" where
  "bind_exn m f = (case m of Inl e \<Rightarrow> Inl e | Inr x \<Rightarrow> f x)"

subsection \<open>Truth value testing, \<^verbatim>\<open>dict.get\<close>, \<^verbatim>\<open>str.strip\<close>\<close>

text \<open>\<^verbatim>\<open>bool(v)\<close>: what \<^verbatim>\<open>if v\<close> and \<^verbatim>\<open>not v\<close> test.\<close>

fun truthy :: "json \<Rightarrow> bool" where
  "truthy JNull = False"
| "truthy (JBool b) = b"
| "truthy (JInt i) = (i \<noteq> 0)"
| "truthy (JFloat f) = (f \<noteq> FloatVal 0)"
| "truthy (JStr s) = (s \<noteq> [])"
| "truthy (JArr xs) = (xs \<noteq> [])"
| "truthy (JObj kvs) = (kvs \<noteq> [])"

text \<open>
  \<^verbatim>\<open>v.get(key, default)\<close>: only a dictionary has the method; on any other value the
  attribute lookup raises \<^verbatim>\<open>AttributeError\<close>.
\<close>

fun py_get :: "json \<Rightarrow> string \<Rightarrow> json \<Rightarrow> exn + json" where
  "py_get (JObj kvs) key dflt = Inr (case map_of kvs key of None \<Rightarrow> dflt | Some v \<Rightarrow> v)"
| "py_get v key dflt = Inl AttributeError"

text \<open>
  The characters \<^verbatim>\<open>str.strip()\<close> removes are those with \<^verbatim>\<open>str.isspace()\<close>: below 256
  these are the code points 9 to 13, 28 to 32, 133 and 160.
\<close>

definition is_space :: "char \<Rightarrow> bool" where
  "is_space c = ((of_char c :: nat) \<in> {9, 10, 11, 12, 13, 28, 29, 30, 31, 32, 133, 160})"

definition strip :: "string \<Rightarrow> string" where
  "strip s = rev (dropWhile is_space (rev (dropWhile is_space s)))"

text \<open>\<^verbatim>\<open>v.strip()\<close>: only a string has the method.\<close>

fun py_strip :: "json \<Rightarrow> exn + string" where
  "py_strip (JStr s) = Inr (strip s)"
| "py_strip v = Inl AttributeError"

section \<open>Request validation\<close>

text \<open>
  \<^verbatim>\<open>validate_request(body)\<close> returns an error message, or \<^verbatim>\<open>None\<close> when the request
  is valid; it raises when \<^verbatim>\<open>body\<close> is a truthy value without \<^verbatim>\<open>get\<close>, or when the
  message has no \<^verbatim>\<open>strip\<close>.
\<close>

definition validate_request :: "json \<Rightarrow> exn + string option" where
  "validate_request body =
     (if \<not> truthy body then Inr (Some ''Request body is required'')
      else bind_exn (py_get body ''message'' (JStr '''')) (\<lambda>v.
           bind_exn (py_strip v) (\<lambda>user_message.
             if user_message = [] then Inr (Some ''Message is required'')
             else if length user_message > 1000
               then Inr (Some ''Message is too long. Maximum 1000 characters allowed.'')
             else Inr None)))"

section \<open>The builtins \<^verbatim>\<open>int\<close> and \<^verbatim>\<open>float\<close> on strings\<close>

text \<open>
  Both strip surrounding whitespace, accept one sign, and read decimal digits in which
  single underscores may stand between two digits.  Anything else raises
  \<^verbatim>\<open>ValueError\<close>.  The whitespace they strip is narrower than that of
  \<^verbatim>\<open>str.strip()\<close>: the code points 28 to 31 are not part of it.  (The interpreter's
  limit on the number of digits of an integer literal is not modelled.)
\<close>

definition is_numeric_space :: "char \<Rightarrow> bool" where
  "is_numeric_space c = ((of_char c :: nat) \<in> {9, 10, 11, 12, 13, 32, 133, 160})"

definition numeric_strip :: "string \<Rightarrow> string" where
  "numeric_strip s = rev (dropWhile is_numeric_space (rev (dropWhile is_numeric_space s)))"

definition is_digit :: "char \<Rightarrow> bool" where
  "is_digit c = (48 \<le> (of_char c :: nat) \<and> (of_char c :: nat) \<le> 57)"

definition digit_val :: "char \<Rightarrow> nat" where
  "digit_val c = of_char c - 48"

text \<open>The digits of a digit part, without its underscores; \<open>None\<close> when it is malformed.\<close>

fun digitpart :: "string \<Rightarrow> string option" where
  "digitpart [] = None"
| "digitpart [c] = (if is_digit c then Some [c] else None)"
| "digitpart (c # d # cs) =
     (if is_digit c
      then (if d = CHR ''_'' then map_option (Cons c) (digitpart cs)
            else map_option (Cons c) (digitpart (d # cs)))
      else None)"

definition decimal_value :: "string \<Rightarrow> nat" where
  "decimal_value ds = foldl (\<lambda>a c. 10 * a + digit_val c) 0 ds"

text \<open>An optional sign: whether it is a minus, and the rest of the string.\<close>

fun split_sign :: "string \<Rightarrow> bool \<times> string" where
  "split_sign [] = (False, [])"
| "split_sign (c # cs) =
     (if c = CHR ''-'' then (True, cs)
      else if c = CHR ''+'' then (False, cs)
      else (False, c # cs))"

definition py_int :: "string \<Rightarrow> exn + int" where
  "py_int s =
     (case split_sign (numeric_strip s) of (neg, r) \<Rightarrow>
        (case digitpart r of
           None \<Rightarrow> Inl ValueError
         | Some ds \<Rightarrow> Inr (if neg then - int (decimal_value ds) else int (decimal_value ds))))"

definition to_lower :: "char \<Rightarrow> char" where
  "to_lower c =
     (if 65 \<le> (of_char c :: nat) \<and> (of_char c :: nat) \<le> 90
      then char_of ((of_char c :: nat) + 32) else c)"

definition scale10 :: "int \<Rightarrow> int \<Rightarrow> rat" where
  "scale10 m k = (if 0 \<le> k then of_int m * 10 ^ nat k else of_int m / 10 ^ nat (- k))"

text \<open>
  The mantissa of a float literal: digits, with at most one point, and a digit on at
  least one side of it.  The result is the digits before and after the point.
\<close>

definition mantissa :: "string \<Rightarrow> (string \<times> string) option" where
  "mantissa m =
     (let ip = takeWhile (\<lambda>c. c \<noteq> CHR ''.'') m;
          rest = dropWhile (\<lambda>c. c \<noteq> CHR ''.'') m
      in if rest = [] then map_option (\<lambda>ds. (ds, [])) (digitpart ip)
         else (let fp = tl rest in
           if ip = [] then map_option (\<lambda>fs. ([], fs)) (digitpart fp)
           else if fp = [] then map_option (\<lambda>ds. (ds, [])) (digitpart ip)
           else (case (digitpart ip, digitpart fp) of
                   (Some ds, Some fs) \<Rightarrow> Some (ds, fs)
                 | _ \<Rightarrow> None)))"

text \<open>The exponent after \<^verbatim>\<open>e\<close>: a sign and a digit part.\<close>

definition exponent :: "string \<Rightarrow> int option" where
  "exponent x =
     (case split_sign x of (neg, r) \<Rightarrow>
        map_option (\<lambda>ds. if neg then - int (decimal_value ds) else int (decimal_value ds))
          (digitpart r))"

definition not_e :: "char \<Rightarrow> bool" where
  "not_e c = (c \<noteq> CHR ''e'' \<and> c \<noteq> CHR ''E'')"

definition py_float :: "string \<Rightarrow> exn + pyfloat" where
  "py_float s =
     (case split_sign (numeric_strip s) of (neg, r) \<Rightarrow>
        if map to_lower r = ''inf'' \<or> map to_lower r = ''infinity'' then Inr (FloatInf (\<not> neg))
        else if map to_lower r = ''nan'' then Inr FloatNaN
        else
          (let m = takeWhile not_e r; rest = dropWhile not_e r;
               ex = (if rest = [] then Some 0 else exponent (tl rest))
           in case (mantissa m, ex) of
                (Some (ds, fs), Some k) \<Rightarrow>
                  (let v = scale10 (int (decimal_value (ds @ fs))) (k - int (length fs))
                   in Inr (FloatVal (if neg then - v else v)))
              | _ \<Rightarrow> Inl ValueError))"

section \<open>The world outside the program\<close>

text \<open>
  What the program reads from its surroundings is a parameter of the model:
  the process environment \<^verbatim>\<open>os.environ\<close>, the library functions \<^verbatim>\<open>json.loads\<close>
  (which raises on a malformed text) and \<^verbatim>\<open>json.dumps\<close>, the construction of the
  service client by \<^verbatim>\<open>boto3.client\<close> (which may raise), and the call
  \<^verbatim>\<open>invoke_model\<close> of that client.  \<open>invoke_model\<close> takes the client's region, the
  model identifier and the request text; it yields the text read from the body of the
  reply, or the exception raised on the way.
  Writing to the log has no result the program reads and is left out.
\<close>

record world =
  environ :: "string \<rightharpoonup> string"
  json_loads :: "string \<Rightarrow> exn + json"
  json_dumps :: "json \<Rightarrow> string"
  boto3_client :: "string \<Rightarrow> string \<Rightarrow> exn + unit"
  invoke_model :: "string \<Rightarrow> string \<Rightarrow> string \<Rightarrow> exn + string"

text \<open>\<^verbatim>\<open>os.environ.get(key, default)\<close>\<close>

definition environ_get :: "world \<Rightarrow> string \<Rightarrow> string \<Rightarrow> string" where
  "environ_get w key dflt = (case environ w key of None \<Rightarrow> dflt | Some v \<Rightarrow> v)"

section \<open>Config\<close>

definition get_aws_region :: "world \<Rightarrow> string" where
  "get_aws_region w = environ_get w ''AWS_REGION'' ''us-east-1''"

definition get_bedrock_model_id :: "world \<Rightarrow> string" where
  "get_bedrock_model_id w =
     environ_get w ''BEDROCK_MODEL_ID'' ''anthropic.claude-3-haiku-20240307-v1:0''"

definition get_max_tokens :: "world \<Rightarrow> exn + int" where
  "get_max_tokens w = py_int (environ_get w ''MAX_TOKENS'' ''1000'')"

definition get_temperature :: "world \<Rightarrow> exn + pyfloat" where
  "get_temperature w = py_float (environ_get w ''TEMPERATURE'' ''0.5'')"

definition get_allowed_origins :: "world \<Rightarrow> string" where
  "get_allowed_origins w = environ_get w ''ALLOWED_ORIGINS'' ''*''"

definition get_environment :: "world \<Rightarrow> string" where
  "get_environment w = environ_get w ''ENVIRONMENT'' ''dev''"

section \<open>Subscripts and \<^verbatim>\<open>len\<close>\<close>

text \<open>
  \<^verbatim>\<open>v[key]\<close> with a string key: a dictionary without the key raises \<^verbatim>\<open>KeyError\<close>,
  every other value raises \<^verbatim>\<open>TypeError\<close>.
\<close>

fun subscript_str :: "json \<Rightarrow> string \<Rightarrow> exn + json" where
  "subscript_str (JObj kvs) key = (case map_of kvs key of None \<Rightarrow> Inl KeyError | Some v \<Rightarrow> Inr v)"
| "subscript_str v key = Inl TypeError"

text \<open>
  \<^verbatim>\<open>v[0]\<close>: the first element of a list, the first character of a string;
  \<^verbatim>\<open>IndexError\<close> when these are empty.  A dictionary has string keys only, so the
  key 0 is missing.
\<close>

fun subscript_zero :: "json \<Rightarrow> exn + json" where
  "subscript_zero (JArr []) = Inl IndexError"
| "subscript_zero (JArr (x # xs)) = Inr x"
| "subscript_zero (JStr []) = Inl IndexError"
| "subscript_zero (JStr (c # cs)) = Inr (JStr [c])"
| "subscript_zero (JObj kvs) = Inl KeyError"
| "subscript_zero v = Inl TypeError"

fun py_len :: "json \<Rightarrow> exn + nat" where
  "py_len (JArr xs) = Inr (length xs)"
| "py_len (JStr s) = Inr (length s)"
| "py_len (JObj kvs) = Inr (length kvs)"
| "py_len v = Inl TypeError"

section \<open>BedrockClient\<close>

record bedrock_client =
  region :: string
  model_id :: string

text \<open>The constructor: it reads the region, builds the client, reads the model identifier.\<close>

definition BedrockClient_init :: "world \<Rightarrow> exn + bedrock_client" where
  "BedrockClient_init w =
     bind_exn (boto3_client w ''bedrock-runtime'' (get_aws_region w)) (\<lambda>_.
       Inr \<lparr>region = get_aws_region w, model_id = get_bedrock_model_id w\<rparr>)"

definition fallback_text :: string where
  "fallback_text =
     ''I apologize, but I couldn't generate a response. Please try again with a different question.''"

text \<open>The request payload of \<^verbatim>\<open>generate_response\<close>.\<close>

definition request_payload :: "int \<Rightarrow> pyfloat \<Rightarrow> string \<Rightarrow> json" where
  "request_payload max_tokens temperature prompt =
     JObj [(''anthropic_version'', JStr ''bedrock-2023-05-31''),
           (''max_tokens'', JInt max_tokens),
           (''temperature'', JFloat temperature),
           (''messages'', JArr [JObj [(''role'', JStr ''user''), (''content'', JStr prompt)]])]"

text \<open>The body of the \<^verbatim>\<open>try\<close> statement of \<^verbatim>\<open>generate_response\<close>.\<close>

definition generate_response_try :: "world \<Rightarrow> bedrock_client \<Rightarrow> string \<Rightarrow> exn + json" where
  "generate_response_try w self prompt =
     bind_exn (get_max_tokens w) (\<lambda>max_tokens.
     bind_exn (get_temperature w) (\<lambda>temperature.
     bind_exn (invoke_model w (region self) (model_id self)
                 (json_dumps w (request_payload max_tokens temperature prompt))) (\<lambda>raw.
     bind_exn (json_loads w raw) (\<lambda>response_body.
     bind_exn (subscript_str response_body ''content'') (\<lambda>content.
       if truthy content
       then bind_exn (py_len content) (\<lambda>n.
              if n > 0
              then bind_exn (subscript_zero content) (\<lambda>first. subscript_str first ''text'')
              else Inr (JStr fallback_text))
       else Inr (JStr fallback_text))))))"

text \<open>
  \<^verbatim>\<open>except Exception as e: ...; raise e\<close>: the exception is logged and raised again,
  the same one.
\<close>

definition generate_response :: "world \<Rightarrow> bedrock_client \<Rightarrow> string \<Rightarrow> exn + json" where
  "generate_response w self prompt =
     (case generate_response_try w self prompt of
        Inl e \<Rightarrow> Inl e
      | Inr text \<Rightarrow> Inr text)"

section \<open>AcademicChatbot\<close>

definition newline :: string where
  "newline = [CHR 0x0A]"

definition create_prompt :: "string \<Rightarrow> string" where
  "create_prompt user_message =
     ''Human: You are an academic assistant designed to help students and researchers with educational topics. '' @ newline @
     ''        Please provide a helpful, accurate, and educational response to the following question. '' @ newline @
     ''        If the question is not academic in nature, politely guide the user back to academic topics.'' @ newline @
     ''        '' @ newline @
     ''        Question: '' @ user_message @ newline @
     ''        '' @ newline @
     ''        Please provide a comprehensive yet concise answer. If appropriate, you can:'' @ newline @
     ''        1. Explain key concepts'' @ newline @
     ''        2. Provide examples'' @ newline @
     ''        3. Suggest related topics for further study'' @ newline @
     ''        4. Mention important principles or theories'' @ newline @
     ''        '' @ newline @
     ''        Assistant:''"

text \<open>The chatbot holds its client; \<^verbatim>\<open>AcademicChatbot()\<close> constructs it.\<close>

definition AcademicChatbot_init :: "world \<Rightarrow> exn + bedrock_client" where
  "AcademicChatbot_init w = BedrockClient_init w"

definition process_message :: "world \<Rightarrow> bedrock_client \<Rightarrow> string \<Rightarrow> exn + json" where
  "process_message w chatbot user_message =
     generate_response w chatbot (create_prompt user_message)"

section \<open>The response envelope\<close>

record response =
  statusCode :: int
  headers :: "(string \<times> string) list"
  body :: string

definition create_response :: "world \<Rightarrow> int \<Rightarrow> json \<Rightarrow> response" where
  "create_response w status_code b =
     \<lparr>statusCode = status_code,
      headers =
        [(''Content-Type'', ''application/json''),
         (''Access-Control-Allow-Origin'', get_allowed_origins w),
         (''Access-Control-Allow-Methods'', ''POST, OPTIONS, GET''),
         (''Access-Control-Allow-Headers'',
            ''Content-Type,X-Amz-Date,Authorization,X-Api-Key,X-Amz-Security-Token''),
         (''Access-Control-Allow-Credentials'', ''true'')],
      body = json_dumps w b\<rparr>"

section \<open>The handler\<close>

text \<open>
  The event is a dictionary.  Each \<^verbatim>\<open>return\<close> of \<^verbatim>\<open>lambda_handler\<close> is labelled
  with the branch it ends: the preflight answer, the validation error and the success
  inside the \<^verbatim>\<open>try\<close> statement, and the two \<^verbatim>\<open>except\<close> clauses.
\<close>

datatype exit_path = Preflight | ParseError | ValidationError | Success | CatchAll

text \<open>Lines 147 to 153: the body the request carries.\<close>

definition parse_body :: "world \<Rightarrow> (string \<times> json) list \<Rightarrow> exn + json" where
  "parse_body w event =
     (case map_of event ''body'' of
        None \<Rightarrow> Inr (JObj [])
      | Some b \<Rightarrow>
          if truthy b
          then (case b of JStr s \<Rightarrow> json_loads w s | _ \<Rightarrow> Inr b)
          else Inr (JObj []))"

text \<open>\<^verbatim>\<open>if validation_error\<close>: an error message that is not the empty string.\<close>

fun truthy_message :: "string option \<Rightarrow> bool" where
  "truthy_message None = False"
| "truthy_message (Some m) = (m \<noteq> [])"

definition success_body :: "world \<Rightarrow> json \<Rightarrow> json" where
  "success_body w bot_response =
     JObj [(''response'', bot_response),
           (''environment'', JStr (get_environment w)),
           (''model_used'', JStr (get_bedrock_model_id w))]"

definition internal_error_body :: "world \<Rightarrow> json" where
  "internal_error_body w =
     JObj [(''error'', JStr ''Internal server error''),
           (''environment'', JStr (get_environment w))]"

text \<open>Lines 163 and 164: the chatbot is built and asked.\<close>

definition ask_chatbot :: "world \<Rightarrow> string \<Rightarrow> exn + json" where
  "ask_chatbot w user_message =
     bind_exn (AcademicChatbot_init w) (\<lambda>chatbot. process_message w chatbot user_message)"

text \<open>The body of the \<^verbatim>\<open>try\<close> statement, lines 142 to 170.\<close>

definition handler_try :: "world \<Rightarrow> (string \<times> json) list \<Rightarrow> exn + exit_path \<times> response" where
  "handler_try w event =
     (if map_of event ''httpMethod'' = Some (JStr ''OPTIONS'')
      then Inr (Preflight, create_response w 200 (JObj []))
      else
        bind_exn (parse_body w event) (\<lambda>b.
        bind_exn (validate_request b) (\<lambda>validation_error.
          if truthy_message validation_error
          then Inr (ValidationError,
                 create_response w 400 (JObj [(''error'', JStr (the validation_error))]))
          else
            bind_exn (py_get b ''message'' (JStr '''')) (\<lambda>v.
            bind_exn (py_strip v) (\<lambda>user_message.
            bind_exn (ask_chatbot w user_message) (\<lambda>bot_response.
              Inr (Success, create_response w 200 (success_body w bot_response))))))))"

text \<open>
  The whole statement: \<^verbatim>\<open>except json.JSONDecodeError\<close> is tried first, then
  \<^verbatim>\<open>except Exception\<close>.
\<close>

definition lambda_handler_exit :: "world \<Rightarrow> (string \<times> json) list \<Rightarrow> exit_path \<times> response" where
  "lambda_handler_exit w event =
     (case handler_try w event of
        Inr r \<Rightarrow> r
      | Inl e \<Rightarrow>
          if e = JSONDecodeError
          then (ParseError,
                create_response w 400 (JObj [(''error'', JStr ''Invalid JSON in request body'')]))
          else (CatchAll, create_response w 500 (internal_error_body w)))"

text \<open>The envelope with which the \<^verbatim>\<open>try\<close> statement ends.\<close>

definition lambda_handler :: "world \<Rightarrow> (string \<times> json) list \<Rightarrow> response" where
  "lambda_handler w event = snd (lambda_handler_exit w event)"

text \<open>
  The two \<^verbatim>\<open>except\<close> clauses, as a function of the exception they receive.
\<close>

definition except_clauses :: "world \<Rightarrow> exn \<Rightarrow> exit_path \<times> response" where
  "except_clauses w e =
     (if e = JSONDecodeError
      then (ParseError,
            create_response w 400 (JObj [(''error'', JStr ''Invalid JSON in request body'')]))
      else (CatchAll, create_response w 500 (internal_error_body w)))"

subsection \<open>The log statement before the \<^verbatim>\<open>try\<close> statement\<close>

text \<open>
  \<open>lambda_handler\<close> above is the envelope the \<^verbatim>\<open>try\<close> statement of lines 141 to 181
  ends with.  The function begins, at line 139 and outside that statement, by writing
  the event to the log, for which it calls \<^verbatim>\<open>json.dumps(event)\<close>.  The encoder
  descends into lists and dictionaries and raises \<^verbatim>\<open>RecursionError\<close> when they are
  nested more deeply than the stack of the interpreter allows; \<open>limit\<close> is the deepest
  nesting it serialises at this point.  An event of JSON values gives it no other
  reason to raise.  An exception raised here is not inside the \<^verbatim>\<open>try\<close> statement, so
  it leaves the function.  (Inside the \<^verbatim>\<open>try\<close> statement \<^verbatim>\<open>json.dumps\<close> is applied to
  the request payload and to the bodies of the envelopes, and is taken to return.)
\<close>

primrec nesting :: "json \<Rightarrow> nat" where
  "nesting JNull = 0"
| "nesting (JBool b) = 0"
| "nesting (JInt i) = 0"
| "nesting (JFloat f) = 0"
| "nesting (JStr s) = 0"
| "nesting (JArr xs) = Suc (foldr max (map nesting xs) 0)"
| "nesting (JObj kvs) = Suc (foldr max (map snd (map (map_prod id nesting) kvs)) 0)"

definition log_event :: "nat \<Rightarrow> (string \<times> json) list \<Rightarrow> exn + unit" where
  "log_event limit event =
     (if limit < nesting (JObj event) then Inl (ExternalError ''RecursionError'') else Inr ())"

text \<open>The whole body of the function: the log statement, then the \<^verbatim>\<open>try\<close> statement.\<close>

definition lambda_handler_call :: "nat \<Rightarrow> world \<Rightarrow> (string \<times> json) list \<Rightarrow> exn + response" where
  "lambda_handler_call limit w event =
     bind_exn (log_event limit event) (\<lambda>_. Inr (lambda_handler w event))"

text \<open>The empty list inside \<open>n\<close> lists.\<close>

fun nested :: "nat \<Rightarrow> json" where
  "nested 0 = JArr []"
| "nested (Suc n) = JArr [nested n]"

section \<open>The validator as the specification words it\<close>

text \<open>
  The specification's validator takes the parsed body, a string-keyed mapping that may
  be empty or absent, and answers either ``valid'' with the trimmed message or an error
  text.  Its rules, in order: a body that is absent or empty is refused with
  ``Request body is required''; a message that is absent, or empty after trimming, with
  ``Message is required''; a trimmed message of more than 1000 characters with
  ``Message is too long. Maximum 1000 characters allowed.''.  No other field is looked
  at, so the validator sees of a body only whether it is there and not empty, and its
  message.
\<close>

datatype request_view = NoBody | Body "string option"

datatype verdict = Valid string | Invalid string

fun spec_validator :: "request_view \<Rightarrow> verdict" where
  "spec_validator NoBody = Invalid ''Request body is required''"
| "spec_validator (Body None) = Invalid ''Message is required''"
| "spec_validator (Body (Some message)) =
     (let trimmed = strip message
      in if trimmed = [] then Invalid ''Message is required''
         else if 1000 < length trimmed
           then Invalid ''Message is too long. Maximum 1000 characters allowed.''
         else Valid trimmed)"

text \<open>
  What a body shows to the specification's validator: \<^verbatim>\<open>None\<close> is the absent body; a
  dictionary shows its message when that is a string.  Other values are not
  string-keyed mappings with a string message, and have no view.
\<close>

fun view_of :: "json \<Rightarrow> request_view option" where
  "view_of JNull = Some NoBody"
| "view_of (JObj kvs) =
     (if kvs = [] then Some NoBody
      else (case map_of kvs ''message'' of
              None \<Rightarrow> Some (Body None)
            | Some (JStr m) \<Rightarrow> Some (Body (Some m))
            | Some _ \<Rightarrow> None))"
| "view_of v = None"



section \<open>A world for the examples\<close>

text \<open>
  The examples run the handler in the setting of \<^verbatim>\<open>src/scripts/test_lambda.py\<close>: its
  environment variables, and stand-ins for the library and for the service.  The
  stand-in for \<^verbatim>\<open>json.loads\<close> knows a few texts and refuses every other; the
  stand-in for \<^verbatim>\<open>json.dumps\<close> writes objects, lists, strings without characters to
  escape, integers, booleans and \<^verbatim>\<open>null\<close> as \<^verbatim>\<open>json.dumps\<close> does (floats do not
  occur in the envelopes of the examples, and are written as one fixed text); the
  service answers every request with one text.
\<close>

definition test_environ :: "string \<rightharpoonup> string" where
  "test_environ =
     [''AWS_REGION'' \<mapsto> ''us-east-1'',
      ''BEDROCK_MODEL_ID'' \<mapsto> ''anthropic.claude-3-haiku-20240307-v1:0'',
      ''MAX_TOKENS'' \<mapsto> ''1000'',
      ''TEMPERATURE'' \<mapsto> ''0.5'',
      ''ALLOWED_ORIGINS'' \<mapsto> ''*'',
      ''ENVIRONMENT'' \<mapsto> ''test'',
      ''PROJECT_NAME'' \<mapsto> ''academic-chatbot-test'']"

definition known_texts :: "(string \<times> json) list" where
  \<open>known_texts =
     [(''{"message": "What is photosynthesis?"}'',
         JObj [(''message'', JStr ''What is photosynthesis?'')]),
      (''{"message": ""}'', JObj [(''message'', JStr '''')]),
      (''{"message": 5}'', JObj [(''message'', JInt 5)]),
      (''{"content": [{"text": "Photosynthesis is..."}]}'',
         JObj [(''content'', JArr [JObj [(''text'', JStr ''Photosynthesis is...'')]])]),
      (''{"content": []}'', JObj [(''content'', JArr [])]),
      (''0'', JInt 0),
      (''42'', JInt 42),
      (''null'', JNull),
      (''[1,2]'', JArr [JInt 1, JInt 2])]\<close>

definition test_loads :: "string \<Rightarrow> exn + json" where
  "test_loads s = (case map_of known_texts s of None \<Rightarrow> Inl JSONDecodeError | Some v \<Rightarrow> Inr v)"

definition quoted :: "string \<Rightarrow> string" where
  \<open>quoted s = ''"'' @ s @ ''"''\<close>

fun join :: "string list \<Rightarrow> string" where
  "join [] = []"
| "join [x] = x"
| "join (x # y # xs) = x @ '', '' @ join (y # xs)"

fun decimal :: "nat \<Rightarrow> string" where
  "decimal n =
     (if n < 10 then [char_of (48 + n)]
      else decimal (n div 10) @ [char_of (48 + n mod 10)])"

primrec test_dumps :: "json \<Rightarrow> string" where
  "test_dumps JNull = ''null''"
| "test_dumps (JBool b) = (if b then ''true'' else ''false'')"
| "test_dumps (JInt i) = (if i < 0 then ''-'' @ decimal (nat (- i)) else decimal (nat i))"
| "test_dumps (JFloat f) = ''0.0''"
| "test_dumps (JStr s) = quoted s"
| "test_dumps (JArr xs) = ''['' @ join (map test_dumps xs) @ '']''"
| "test_dumps (JObj kvs) =
     ''{'' @ join (map (\<lambda>(k, t). quoted k @ '': '' @ t) (map (map_prod id test_dumps) kvs)) @ ''}''"

definition test_world :: world where
  \<open>test_world =
     \<lparr>environ = test_environ,
      json_loads = test_loads,
      json_dumps = test_dumps,
      boto3_client = (\<lambda>service region_name. Inr ()),
      invoke_model = (\<lambda>region_name modelId request.
         Inr ''{"content": [{"text": "Photosynthesis is..."}]}'')\<rparr>\<close>

text \<open>The same world without any environment variable set.\<close>

definition bare_world :: world where
  "bare_world = test_world\<lparr>environ := Map.empty\<rparr>"

section \<open>Basic facts\<close>

lemma bind_exn_Inl: "bind_exn (Inl e) f = Inl e"
  by (simp add: bind_exn_def)

lemma bind_exn_Inr: "bind_exn (Inr x) f = f x"
  by (simp add: bind_exn_def)

lemma bind_exn_get_strip:
  "bind_exn (py_get b k d) (\<lambda>v. bind_exn (py_strip v) f) =
   bind_exn (bind_exn (py_get b k d) py_strip) f"
  by (cases "py_get b k d") (simp_all add: bind_exn_def)

lemma not_space_a: "\<not> is_space CHR ''a''"
  by (simp add: is_space_def)

lemma space_blank: "is_space CHR '' ''"
  by (simp add: is_space_def)

lemma strip_replicate_a: "strip (replicate n CHR ''a'') = replicate n CHR ''a''"
  by (simp add: strip_def not_space_a)

lemma strip_Nil: "strip [] = []"
  by (simp add: strip_def)

lemma strip_question: "strip ''What is photosynthesis?'' = ''What is photosynthesis?''"
  by (simp add: strip_def is_space_def)

subsection \<open>The validator on a dictionary\<close>

lemma validate_request_object:
  "validate_request (JObj kvs) =
     (if kvs = [] then Inr (Some ''Request body is required'')
      else bind_exn (py_strip (case map_of kvs ''message'' of None \<Rightarrow> JStr [] | Some v \<Rightarrow> v))
        (\<lambda>user_message.
           if user_message = [] then Inr (Some ''Message is required'')
           else if length user_message > 1000
             then Inr (Some ''Message is too long. Maximum 1000 characters allowed.'')
           else Inr None))"
  by (simp add: validate_request_def bind_exn_Inr)

lemma validate_request_view:
  assumes "view_of b = Some rv"
  shows "case spec_validator rv of
           Invalid m \<Rightarrow> validate_request b = Inr (Some m) \<and> m \<noteq> []
         | Valid t \<Rightarrow>
             validate_request b = Inr None \<and>
             bind_exn (py_get b ''message'' (JStr '''')) py_strip = Inr t \<and>
             1 \<le> length t \<and> length t \<le> 1000"
proof (cases b)
  case JNull
  with assms show ?thesis by (auto simp: validate_request_def)
next
  case (JObj kvs)
  show ?thesis
  proof (cases "kvs = []")
    case True
    with JObj assms show ?thesis by (auto simp: validate_request_def)
  next
    case False
    show ?thesis
    proof (cases "map_of kvs ''message''")
      case None
      with False JObj assms show ?thesis
        by (auto simp: validate_request_object bind_exn_Inr strip_Nil)
    next
      case (Some v)
      with False JObj assms obtain m where v: "v = JStr m" and rv: "rv = Body (Some m)"
        by (cases v) auto
      from False JObj Some v rv show ?thesis
        by (auto simp: validate_request_object bind_exn_Inr Let_def Suc_le_eq)
    qed
  qed
qed (use assms in auto)

subsection \<open>The handler past the preflight test\<close>

lemma handler_try_after_parse:
  assumes "map_of event ''httpMethod'' \<noteq> Some (JStr ''OPTIONS'')"
    and "parse_body w event = Inr b"
  shows "handler_try w event =
     bind_exn (validate_request b) (\<lambda>validation_error.
          if truthy_message validation_error
          then Inr (ValidationError,
                 create_response w 400 (JObj [(''error'', JStr (the validation_error))]))
          else
            bind_exn (py_get b ''message'' (JStr '''')) (\<lambda>v.
            bind_exn (py_strip v) (\<lambda>user_message.
            bind_exn (ask_chatbot w user_message) (\<lambda>bot_response.
              Inr (Success, create_response w 200 (success_body w bot_response))))))"
  using assms by (simp add: handler_try_def bind_exn_Inr)

lemma lambda_handler_of_try:
  "handler_try w event = Inr (p, r) \<Longrightarrow> lambda_handler_exit w event = (p, r)"
  by (simp add: lambda_handler_exit_def)

lemma lambda_handler_of_raise:
  "handler_try w event = Inl e \<Longrightarrow>
   lambda_handler_exit w event =
     (if e = JSONDecodeError
      then (ParseError,
            create_response w 400 (JObj [(''error'', JStr ''Invalid JSON in request body'')]))
      else (CatchAll, create_response w 500 (internal_error_body w)))"
  by (simp add: lambda_handler_exit_def)

subsection \<open>The world of the examples\<close>

lemma test_loads_question:
  \<open>test_loads ''{"message": "What is photosynthesis?"}'' =
     Inr (JObj [(''message'', JStr ''What is photosynthesis?'')])\<close>
  by (simp add: test_loads_def known_texts_def)

lemma test_loads_answer:
  \<open>test_loads ''{"content": [{"text": "Photosynthesis is..."}]}'' =
     Inr (JObj [(''content'', JArr [JObj [(''text'', JStr ''Photosynthesis is...'')]])])\<close>
  by (simp add: test_loads_def known_texts_def)

lemma parse_body_question:
  \<open>parse_body (test_world\<lparr>invoke_model := i\<rparr>)
       [(''body'', JStr ''{"message": "What is photosynthesis?"}'')] =
     Inr (JObj [(''message'', JStr ''What is photosynthesis?'')])\<close>
  by (simp add: parse_body_def test_world_def test_loads_question)

lemma test_environment: "get_environment (test_world\<lparr>invoke_model := i\<rparr>) = ''test''"
  by (simp add: get_environment_def environ_get_def test_world_def test_environ_def)

lemma test_model_id:
  "get_bedrock_model_id (test_world\<lparr>invoke_model := i\<rparr>) =
     ''anthropic.claude-3-haiku-20240307-v1:0''"
  by (simp add: get_bedrock_model_id_def environ_get_def test_world_def test_environ_def)

lemma test_max_tokens: "get_max_tokens (test_world\<lparr>invoke_model := i\<rparr>) = Inr 1000"
  by (simp add: get_max_tokens_def environ_get_def test_world_def test_environ_def
      py_int_def numeric_strip_def is_numeric_space_def is_digit_def digit_val_def decimal_value_def)

lemma test_temperature:
  "get_temperature (test_world\<lparr>invoke_model := i\<rparr>) = Inr (FloatVal (1 / 2))"
  by (simp add: get_temperature_def environ_get_def test_world_def test_environ_def
      py_float_def numeric_strip_def is_numeric_space_def is_digit_def digit_val_def decimal_value_def
      mantissa_def exponent_def not_e_def to_lower_def scale10_def)

lemma ask_chatbot_test_world:
  "ask_chatbot test_world msg = Inr (JStr ''Photosynthesis is...'')"
proof -
  have "generate_response_try test_world c p = Inr (JStr ''Photosynthesis is...'')" for c p
    using test_max_tokens [of "invoke_model test_world"]
      test_temperature [of "invoke_model test_world"]
    by (simp add: generate_response_try_def bind_exn_Inr)
       (simp add: test_world_def test_loads_answer bind_exn_Inr)
  then show ?thesis
    by (simp add: ask_chatbot_def AcademicChatbot_init_def BedrockClient_init_def
        process_message_def generate_response_def bind_exn_Inr test_world_def)
qed

section \<open>Validation\<close>

text \<open>
  Claim C1.  \<open>validate_request\<close> does what the specification's validator does.  For
  every body that is absent or a dictionary whose message, if it has one, is a string:
  where the specification's validator refuses with a text, \<open>validate_request\<close> returns
  that text (so the checks run in the specification's order and the first failure
  decides); where it accepts with the trimmed message \<open>t\<close>, \<open>validate_request\<close>
  returns \<^verbatim>\<open>None\<close>, the extraction \<^verbatim>\<open>body.get('message', '').strip()\<close> yields the
  same \<open>t\<close>, and \<open>t\<close> has between 1 and 1000 characters.  In the handler, for a request
  that is past the preflight test and carries this body, a refusal ends in the 400
  envelope with the text, and an acceptance hands exactly \<open>t\<close> to the chatbot.
  The example has a message of 1000 characters, which passes, and one of 1001
  characters between two blanks, which is too long.
\<close>

theorem validate_request_refines_spec:
  assumes "view_of b = Some rv"
  shows "(case spec_validator rv of
            Invalid m \<Rightarrow> validate_request b = Inr (Some m)
          | Valid t \<Rightarrow>
              validate_request b = Inr None \<and>
              bind_exn (py_get b ''message'' (JStr '''')) py_strip = Inr t \<and>
              1 \<le> length t \<and> length t \<le> 1000) \<and>
         (\<forall>w event.
            map_of event ''httpMethod'' \<noteq> Some (JStr ''OPTIONS'') \<longrightarrow>
            parse_body w event = Inr b \<longrightarrow>
            handler_try w event =
              (case spec_validator rv of
                 Invalid m \<Rightarrow>
                   Inr (ValidationError, create_response w 400 (JObj [(''error'', JStr m)]))
               | Valid t \<Rightarrow>
                   bind_exn (ask_chatbot w t) (\<lambda>bot_response.
                     Inr (Success, create_response w 200 (success_body w bot_response)))))"
proof (cases "spec_validator rv")
  case (Valid t)
  with validate_request_view [OF assms]
  have v: "validate_request b = Inr None"
    and g: "bind_exn (py_get b ''message'' (JStr '''')) py_strip = Inr t"
    and l: "1 \<le> length t" "length t \<le> 1000"
    by simp_all
  show ?thesis
    using Valid v g l
    by (simp add: handler_try_after_parse bind_exn_Inr bind_exn_get_strip)
next
  case (Invalid m)
  with validate_request_view [OF assms]
  have v: "validate_request b = Inr (Some m)" and m: "m \<noteq> []"
    by simp_all
  show ?thesis
    using Invalid v m by (simp add: handler_try_after_parse bind_exn_Inr)
qed

theorem validate_request_refines_spec_witness:
  "validate_request (JObj [(''message'', JStr (replicate 1000 CHR ''a''))]) = Inr None \<and>
   bind_exn (py_get (JObj [(''message'', JStr (replicate 1000 CHR ''a''))]) ''message'' (JStr ''''))
     py_strip = Inr (replicate 1000 CHR ''a'') \<and>
   validate_request (JObj [(''message'', JStr ('' '' @ replicate 1001 CHR ''a'' @ '' ''))]) =
     Inr (Some ''Message is too long. Maximum 1000 characters allowed.'')"
proof -
  have s: "strip (CHR '' '' # replicate 1001 CHR ''a'' @ '' '') = replicate 1001 CHR ''a''"
    by (simp add: strip_def space_blank not_space_a)
  show ?thesis
    using validate_request_refines_spec
            [of "JObj [(''message'', JStr (replicate 1000 CHR ''a''))]"
                "Body (Some (replicate 1000 CHR ''a''))"]
          validate_request_refines_spec
            [of "JObj [(''message'', JStr ('' '' @ replicate 1001 CHR ''a'' @ '' ''))]"
                "Body (Some ('' '' @ replicate 1001 CHR ''a'' @ '' ''))"]
    by (simp add: strip_replicate_a s)
qed

section \<open>The successful request\<close>

text \<open>
  Claim C2.  For a request that is past the preflight test (only then is the inference
  call made) and whose body is, or parses to, a dictionary with a string message whose
  trimmed form has between 1 and 1000 characters: when the chatbot, asked with the
  trimmed message, returns the text \<open>t\<close>, the handler returns the envelope with status
  200 whose body is the serialisation of the dictionary with \<^verbatim>\<open>response\<close> \<open>t\<close>,
  \<^verbatim>\<open>environment\<close> the configured tag and \<^verbatim>\<open>model_used\<close> the configured model
  identifier.  The example is the first event of the test script.
\<close>

theorem lambda_handler_success:
  assumes "map_of event ''httpMethod'' \<noteq> Some (JStr ''OPTIONS'')"
    and "parse_body w event = Inr (JObj kvs)"
    and "map_of kvs ''message'' = Some (JStr m)"
    and "strip m \<noteq> []"
    and "length (strip m) \<le> 1000"
    and "ask_chatbot w (strip m) = Inr t"
  shows "lambda_handler w event =
           create_response w 200
             (JObj [(''response'', t),
                    (''environment'', JStr (get_environment w)),
                    (''model_used'', JStr (get_bedrock_model_id w))]) \<and>
         statusCode (lambda_handler w event) = 200 \<and>
         body (lambda_handler w event) =
           json_dumps w
             (JObj [(''response'', t),
                    (''environment'', JStr (get_environment w)),
                    (''model_used'', JStr (get_bedrock_model_id w))]) \<and>
         fst (lambda_handler_exit w event) = Success"
proof -
  from assms(3) have ne: "kvs \<noteq> []" by auto
  have "handler_try w event =
          Inr (Success, create_response w 200 (success_body w t))"
    using assms ne
    by (simp add: handler_try_after_parse validate_request_object bind_exn_Inr)
  then have "lambda_handler_exit w event = (Success, create_response w 200 (success_body w t))"
    by (rule lambda_handler_of_try)
  then show ?thesis
    by (simp add: lambda_handler_def success_body_def create_response_def)
qed

theorem lambda_handler_success_witness:
  \<open>lambda_handler test_world [(''body'', JStr ''{"message": "What is photosynthesis?"}'')] =
     create_response test_world 200
       (JObj [(''response'', JStr ''Photosynthesis is...''),
              (''environment'', JStr ''test''),
              (''model_used'', JStr ''anthropic.claude-3-haiku-20240307-v1:0'')])\<close>
proof -
  have p: \<open>parse_body test_world [(''body'', JStr ''{"message": "What is photosynthesis?"}'')] =
             Inr (JObj [(''message'', JStr ''What is photosynthesis?'')])\<close>
    using parse_body_question [of "invoke_model test_world"] by simp
  have e: "get_environment test_world = ''test''"
    using test_environment [of "invoke_model test_world"] by simp
  have i: "get_bedrock_model_id test_world = ''anthropic.claude-3-haiku-20240307-v1:0''"
    using test_model_id [of "invoke_model test_world"] by simp
  show ?thesis
    using lambda_handler_success [OF _ p, of "''What is photosynthesis?''"
            "JStr ''Photosynthesis is...''"]
    by (simp add: strip_question ask_chatbot_test_world e i)
qed

section \<open>More facts about the handler\<close>

lemma handler_try_valid_message:
  assumes "map_of event ''httpMethod'' \<noteq> Some (JStr ''OPTIONS'')"
    and "parse_body w event = Inr (JObj kvs)"
    and "map_of kvs ''message'' = Some (JStr m)"
    and "strip m \<noteq> []"
    and "length (strip m) \<le> 1000"
  shows "handler_try w event =
           bind_exn (ask_chatbot w (strip m)) (\<lambda>bot_response.
             Inr (Success, create_response w 200 (success_body w bot_response)))"
proof -
  from assms(3) have "kvs \<noteq> []" by auto
  with assms show ?thesis
    by (simp add: handler_try_after_parse validate_request_object bind_exn_Inr)
qed


lemma handler_try_parse_raises:
  assumes "map_of event ''httpMethod'' \<noteq> Some (JStr ''OPTIONS'')"
    and "parse_body w event = Inl e"
  shows "handler_try w event = Inl e"
  using assms by (simp add: handler_try_def bind_exn_Inl)

lemma lambda_handler_preflight:
  assumes "map_of event ''httpMethod'' = Some (JStr ''OPTIONS'')"
  shows "lambda_handler_exit w event = (Preflight, create_response w 200 (JObj []))"
  using assms by (simp add: lambda_handler_exit_def handler_try_def)



lemma validate_request_messages:
  assumes "validate_request b = Inr (Some m)"
  shows "m \<in> {''Request body is required'', ''Message is required'',
              ''Message is too long. Maximum 1000 characters allowed.''}"
proof (cases "truthy b")
  case False
  with assms show ?thesis by (simp add: validate_request_def)
next
  case True
  with assms show ?thesis
    by (auto simp: validate_request_def bind_exn_def split: sum.splits if_splits)
qed

lemma handler_try_returns:
  assumes "handler_try w event = Inr (p, r)"
  shows "(p = Preflight \<and> map_of event ''httpMethod'' = Some (JStr ''OPTIONS'') \<and>
            r = create_response w 200 (JObj [])) \<or>
         (p = ValidationError \<and> map_of event ''httpMethod'' \<noteq> Some (JStr ''OPTIONS'') \<and>
            (\<exists>m. m \<in> {''Request body is required'', ''Message is required'',
                        ''Message is too long. Maximum 1000 characters allowed.''} \<and>
                 r = create_response w 400 (JObj [(''error'', JStr m)]))) \<or>
         (p = Success \<and> map_of event ''httpMethod'' \<noteq> Some (JStr ''OPTIONS'') \<and>
            (\<exists>t. r = create_response w 200 (success_body w t)))"
proof (cases "map_of event ''httpMethod'' = Some (JStr ''OPTIONS'')")
  case True
  with assms show ?thesis by (auto simp: handler_try_def)
next
  case False
  from assms False obtain b where b: "parse_body w event = Inr b"
    by (cases "parse_body w event") (auto simp: handler_try_def bind_exn_def)
  from assms False b obtain ve where ve: "validate_request b = Inr ve"
    by (cases "validate_request b") (auto simp: handler_try_def bind_exn_def)
  show ?thesis
  proof (cases "truthy_message ve")
    case True
    then obtain m where m: "ve = Some m" by (cases ve) auto
    from validate_request_messages [of b m] ve m
    have "m \<in> {''Request body is required'', ''Message is required'',
              ''Message is too long. Maximum 1000 characters allowed.''}" by simp
    moreover from assms False b ve True m
    have "p = ValidationError \<and> r = create_response w 400 (JObj [(''error'', JStr m)])"
      by (simp add: handler_try_after_parse bind_exn_Inr)
    ultimately show ?thesis using False by blast
  next
    case no: False
    from assms False b ve no
    have "p = Success \<and> (\<exists>t. r = create_response w 200 (success_body w t))"
      by (auto simp: handler_try_after_parse bind_exn_def split: sum.splits)
    then show ?thesis using False by blast
  qed
qed



lemma create_response_invoke:
  "create_response (w\<lparr>invoke_model := i\<rparr>) c b = create_response w c b"
  by (simp add: create_response_def get_allowed_origins_def environ_get_def)

lemma json_loads_test_world: "json_loads test_world = test_loads"
  by (simp add: test_world_def)






lemma py_int_1000: "py_int ''1000'' = Inr 1000"
  by (simp add: py_int_def numeric_strip_def is_numeric_space_def is_digit_def digit_val_def decimal_value_def)

lemma py_float_half: "py_float ''0.5'' = Inr (FloatVal (1 / 2))"
  by (simp add: py_float_def numeric_strip_def is_numeric_space_def is_digit_def digit_val_def decimal_value_def
      mantissa_def exponent_def not_e_def to_lower_def scale10_def)

lemma py_int_abc: "py_int ''abc'' = Inl ValueError"
  by (simp add: py_int_def numeric_strip_def is_numeric_space_def is_digit_def)

lemma py_float_hot: "py_float ''hot'' = Inl ValueError"
  by (simp add: py_float_def numeric_strip_def is_numeric_space_def is_digit_def 
      mantissa_def exponent_def not_e_def to_lower_def)

section \<open>The inference call\<close>

text \<open>
  What \<open>generate_response\<close> does with the outcome of the call.  When the call returns
  and the content list of the reply is not empty, the result is the \<^verbatim>\<open>text\<close> of its
  first element; when the list is empty, the result is the fixed apology; when the call
  raises, \<open>generate_response\<close> raises the same exception.
\<close>

lemma generate_response_first_text:
  assumes "get_max_tokens w = Inr n"
    and "get_temperature w = Inr tmp"
    and "invoke_model w (region c) (model_id c) (json_dumps w (request_payload n tmp prompt)) = Inr raw"
    and "json_loads w raw = Inr reply"
    and "subscript_str reply ''content'' = Inr (JArr (first # others))"
    and "subscript_str first ''text'' = Inr t"
  shows "generate_response w c prompt = Inr t"
  using assms by (simp add: generate_response_def generate_response_try_def bind_exn_Inr)

lemma generate_response_empty_content:
  assumes "get_max_tokens w = Inr n"
    and "get_temperature w = Inr tmp"
    and "invoke_model w (region c) (model_id c) (json_dumps w (request_payload n tmp prompt)) = Inr raw"
    and "json_loads w raw = Inr reply"
    and "subscript_str reply ''content'' = Inr (JArr [])"
  shows "generate_response w c prompt = Inr (JStr fallback_text)"
  using assms by (simp add: generate_response_def generate_response_try_def bind_exn_Inr)

lemma generate_response_raises_again:
  assumes "get_max_tokens w = Inr n"
    and "get_temperature w = Inr tmp"
    and "invoke_model w (region c) (model_id c) (json_dumps w (request_payload n tmp prompt)) = Inl e"
  shows "generate_response w c prompt = Inl e"
  using assms
  by (simp add: generate_response_def generate_response_try_def bind_exn_Inr bind_exn_Inl)

text \<open>
  A failure of the chatbot with any exception but a \<^verbatim>\<open>JSONDecodeError\<close> ends in the
  500 envelope.
\<close>

lemma lambda_handler_inference_failure:
  assumes "map_of event ''httpMethod'' \<noteq> Some (JStr ''OPTIONS'')"
    and "parse_body w event = Inr (JObj kvs)"
    and "map_of kvs ''message'' = Some (JStr m)"
    and "strip m \<noteq> []"
    and "length (strip m) \<le> 1000"
    and "ask_chatbot w (strip m) = Inl e"
    and "e \<noteq> JSONDecodeError"
  shows "lambda_handler w event =
           create_response w 500
             (JObj [(''error'', JStr ''Internal server error''),
                    (''environment'', JStr (get_environment w))])"
proof -
  have "handler_try w event = Inl e"
    using handler_try_valid_message [OF assms(1-5)] assms(6) by (simp add: bind_exn_Inl)
  then show ?thesis
    using assms(7)
    by (simp add: lambda_handler_def lambda_handler_of_raise internal_error_body_def)
qed

lemma ask_chatbot_raises:
  "ask_chatbot (test_world\<lparr>invoke_model := (\<lambda>region_name modelId request. Inl e)\<rparr>) msg = Inl e"
proof -
  let ?w = "test_world\<lparr>invoke_model := (\<lambda>region_name modelId request. Inl e)\<rparr>"
  have "generate_response ?w c p = Inl e" for c p
    by (rule generate_response_raises_again [OF test_max_tokens test_temperature]) simp
  then show ?thesis
    by (simp add: ask_chatbot_def AcademicChatbot_init_def BedrockClient_init_def
        process_message_def bind_exn_Inr test_world_def)
qed

text \<open>
  An empty content list is a success for the caller: the handler returns status 200
  with the apology as the response.
\<close>

lemma lambda_handler_fallback:
  assumes "map_of event ''httpMethod'' \<noteq> Some (JStr ''OPTIONS'')"
    and "parse_body w event = Inr (JObj kvs)"
    and "map_of kvs ''message'' = Some (JStr m)"
    and "strip m \<noteq> []"
    and "length (strip m) \<le> 1000"
    and "ask_chatbot w (strip m) = Inr (JStr fallback_text)"
  shows "lambda_handler w event = create_response w 200 (success_body w (JStr fallback_text))"
proof -
  have "handler_try w event =
          Inr (Success, create_response w 200 (success_body w (JStr fallback_text)))"
    using handler_try_valid_message [OF assms(1-5)] assms(6) by (simp add: bind_exn_Inr)
  then show ?thesis
    by (simp add: lambda_handler_def lambda_handler_of_try)
qed

text \<open>
  A \<^verbatim>\<open>JSONDecodeError\<close> out of the chatbot is the exception left out above: the clause
  \<^verbatim>\<open>except json.JSONDecodeError\<close> of the handler encloses the inference stage as
  well as the parsing of the request body, and answers it with status 400.
\<close>

lemma lambda_handler_inference_decode_error:
  assumes "map_of event ''httpMethod'' \<noteq> Some (JStr ''OPTIONS'')"
    and "parse_body w event = Inr (JObj kvs)"
    and "map_of kvs ''message'' = Some (JStr m)"
    and "strip m \<noteq> []"
    and "length (strip m) \<le> 1000"
    and "ask_chatbot w (strip m) = Inl JSONDecodeError"
  shows "lambda_handler w event =
           create_response w 400 (JObj [(''error'', JStr ''Invalid JSON in request body'')])"
proof -
  have "handler_try w event = Inl JSONDecodeError"
    using handler_try_valid_message [OF assms(1-5)] assms(6) by (simp add: bind_exn_Inl)
  then show ?thesis
    by (simp add: lambda_handler_def lambda_handler_of_raise)
qed

lemma test_loads_page: "test_loads ''<html>Bad Gateway</html>'' = Inl JSONDecodeError"
  by (simp add: test_loads_def known_texts_def)

lemma ask_chatbot_reply_not_json:
  "ask_chatbot
     (test_world\<lparr>invoke_model := (\<lambda>region_name modelId request. Inr ''<html>Bad Gateway</html>'')\<rparr>)
     msg = Inl JSONDecodeError"
proof -
  let ?w = "test_world\<lparr>invoke_model :=
              (\<lambda>region_name modelId request. Inr ''<html>Bad Gateway</html>'')\<rparr>"
  have l: "json_loads ?w = test_loads" by (simp add: test_world_def)
  have "generate_response_try ?w c p = Inl JSONDecodeError" for c p
    by (simp add: generate_response_try_def test_max_tokens test_temperature bind_exn_Inr
        bind_exn_Inl l test_loads_page)
  then show ?thesis
    by (simp add: ask_chatbot_def AcademicChatbot_init_def BedrockClient_init_def
        process_message_def generate_response_def bind_exn_Inr test_world_def)
qed

text \<open>
  Claim C3.  The claim has the handler produce the 500 envelope whenever the inference
  call raises an error.  It does not when the error is a \<^verbatim>\<open>JSONDecodeError\<close>: for the
  first event of the test script, with a service call that raises
  \<^verbatim>\<open>JSONDecodeError\<close>, the handler returns status 400 with the text ``Invalid JSON in
  request body'', although the request body is valid JSON; and it returns the same when
  the call returns a reply that is not JSON, so that decoding the reply raises the
  error inside \<open>generate_response\<close>.
\<close>

theorem inference_decode_error_answered_400:
  \<open>lambda_handler
      (test_world\<lparr>invoke_model := (\<lambda>region_name modelId request. Inl JSONDecodeError)\<rparr>)
      [(''body'', JStr ''{"message": "What is photosynthesis?"}'')] =
    create_response test_world 400 (JObj [(''error'', JStr ''Invalid JSON in request body'')]) \<and>
   statusCode
     (lambda_handler
        (test_world\<lparr>invoke_model := (\<lambda>region_name modelId request. Inl JSONDecodeError)\<rparr>)
        [(''body'', JStr ''{"message": "What is photosynthesis?"}'')]) = 400 \<and>
   lambda_handler
      (test_world\<lparr>invoke_model :=
         (\<lambda>region_name modelId request. Inr ''<html>Bad Gateway</html>'')\<rparr>)
      [(''body'', JStr ''{"message": "What is photosynthesis?"}'')] =
    create_response test_world 400 (JObj [(''error'', JStr ''Invalid JSON in request body'')])\<close>
proof -
  let ?ev = \<open>[(''body'', JStr ''{"message": "What is photosynthesis?"}'')]\<close>
  have a: "lambda_handler
      (test_world\<lparr>invoke_model := (\<lambda>region_name modelId request. Inl JSONDecodeError)\<rparr>) ?ev =
    create_response test_world 400 (JObj [(''error'', JStr ''Invalid JSON in request body'')])"
    using lambda_handler_inference_decode_error
            [OF _ parse_body_question, of "''What is photosynthesis?''"
               "\<lambda>region_name modelId request. Inl JSONDecodeError"]
    by (simp add: strip_question ask_chatbot_raises create_response_invoke)
  have b: "lambda_handler
      (test_world\<lparr>invoke_model :=
         (\<lambda>region_name modelId request. Inr ''<html>Bad Gateway</html>'')\<rparr>) ?ev =
    create_response test_world 400 (JObj [(''error'', JStr ''Invalid JSON in request body'')])"
    using lambda_handler_inference_decode_error
            [OF _ parse_body_question, of "''What is photosynthesis?''"
               "\<lambda>region_name modelId request. Inr ''<html>Bad Gateway</html>''"]
    by (simp add: strip_question ask_chatbot_reply_not_json create_response_invoke)
  from a b show ?thesis
    by (simp add: create_response_def)
qed

section \<open>The envelope\<close>

text \<open>
  Claim C4.  Whatever the event, the envelope the handler returns is one that
  \<open>create_response\<close> built from a status code and a body; its headers are the five
  fixed ones, with the configured origin as \<^verbatim>\<open>Access-Control-Allow-Origin\<close>; the
  envelope \<open>create_response\<close> builds has the given status code, these headers and
  the serialisation of the given body; and the headers are the same for any two status
  codes and bodies.
\<close>

theorem every_envelope_from_create_response:
  "(\<exists>status_code b. lambda_handler w event = create_response w status_code b) \<and>
   headers (lambda_handler w event) =
     [(''Content-Type'', ''application/json''),
      (''Access-Control-Allow-Origin'', get_allowed_origins w),
      (''Access-Control-Allow-Methods'', ''POST, OPTIONS, GET''),
      (''Access-Control-Allow-Headers'',
         ''Content-Type,X-Amz-Date,Authorization,X-Api-Key,X-Amz-Security-Token''),
      (''Access-Control-Allow-Credentials'', ''true'')] \<and>
   create_response w status_code b =
     \<lparr>statusCode = status_code,
      headers =
        [(''Content-Type'', ''application/json''),
         (''Access-Control-Allow-Origin'', get_allowed_origins w),
         (''Access-Control-Allow-Methods'', ''POST, OPTIONS, GET''),
         (''Access-Control-Allow-Headers'',
            ''Content-Type,X-Amz-Date,Authorization,X-Api-Key,X-Amz-Security-Token''),
         (''Access-Control-Allow-Credentials'', ''true'')],
      body = json_dumps w b\<rparr> \<and>
   headers (create_response w status_code b) = headers (create_response w status_code' b')"
proof -
  have ex: "\<exists>status_code b. lambda_handler w event = create_response w status_code b"
  proof (cases "handler_try w event")
    case (Inl e)
    then show ?thesis
      by (cases "e = JSONDecodeError")
         (auto simp: lambda_handler_def lambda_handler_of_raise)
  next
    case (Inr pr)
    obtain p r where pr: "pr = (p, r)" by (cases pr)
    from handler_try_returns [of w event p r] Inr pr
    have "\<exists>status_code b. r = create_response w status_code b" by auto
    with Inr pr show ?thesis
      by (simp add: lambda_handler_def lambda_handler_of_try)
  qed
  then obtain c b0 where "lambda_handler w event = create_response w c b0" by blast
  then have "headers (lambda_handler w event) =
     [(''Content-Type'', ''application/json''),
      (''Access-Control-Allow-Origin'', get_allowed_origins w),
      (''Access-Control-Allow-Methods'', ''POST, OPTIONS, GET''),
      (''Access-Control-Allow-Headers'',
         ''Content-Type,X-Amz-Date,Authorization,X-Api-Key,X-Amz-Security-Token''),
      (''Access-Control-Allow-Credentials'', ''true'')]"
    by (simp add: create_response_def)
  with ex show ?thesis by (simp add: create_response_def)
qed

section \<open>The exits of the handler\<close>

text \<open>
  Which exit the \<^verbatim>\<open>try\<close> statement takes, and with which envelope, as a table over
  the outcomes of its stages.  The exits exclude one another and leave no case out: a
  preflight request takes the preflight exit; otherwise an exception, wherever it is
  raised, goes to the \<^verbatim>\<open>except\<close> clauses, which answer a \<^verbatim>\<open>JSONDecodeError\<close> with the
  parse error and every other one with the catch-all; a validation text gives the
  validation error; and an answer of the chatbot the success.
\<close>

lemma validate_request_message_nonempty:
  "validate_request b = Inr (Some m) \<Longrightarrow> m \<noteq> []"
  using validate_request_messages [of b m] by auto

lemma lambda_handler_exit_table:
  "lambda_handler_exit w event =
     (if map_of event ''httpMethod'' = Some (JStr ''OPTIONS'')
      then (Preflight, create_response w 200 (JObj []))
      else
        (case parse_body w event of
           Inl e \<Rightarrow> except_clauses w e
         | Inr b \<Rightarrow>
             (case validate_request b of
                Inl e \<Rightarrow> except_clauses w e
              | Inr (Some m) \<Rightarrow>
                  (ValidationError, create_response w 400 (JObj [(''error'', JStr m)]))
              | Inr None \<Rightarrow>
                  (case bind_exn (py_get b ''message'' (JStr '''')) py_strip of
                     Inl e \<Rightarrow> except_clauses w e
                   | Inr user_message \<Rightarrow>
                       (case ask_chatbot w user_message of
                          Inl e \<Rightarrow> except_clauses w e
                        | Inr bot_response \<Rightarrow>
                            (Success,
                             create_response w 200 (success_body w bot_response)))))))"
proof (cases "map_of event ''httpMethod'' = Some (JStr ''OPTIONS'')")
  case True
  then show ?thesis by (simp add: lambda_handler_preflight)
next
  case False
  show ?thesis
  proof (cases "parse_body w event")
    case (Inl e)
    with False show ?thesis
      by (simp add: handler_try_parse_raises lambda_handler_of_raise except_clauses_def)
  next
    case (Inr b)
    note t = handler_try_after_parse [OF False Inr]
    show ?thesis
    proof (cases "validate_request b")
      case (Inl e)
      with False Inr t show ?thesis
        by (simp add: lambda_handler_exit_def bind_exn_Inl except_clauses_def)
    next
      case v: (Inr ve)
      show ?thesis
      proof (cases ve)
        case (Some m)
        with v have "m \<noteq> []" by (simp add: validate_request_message_nonempty)
        with False Inr v Some t show ?thesis
          by (simp add: lambda_handler_exit_def bind_exn_Inr)
      next
        case None
        with False Inr v t show ?thesis
          by (simp add: lambda_handler_exit_def bind_exn_Inr bind_exn_get_strip
              except_clauses_def bind_exn_def split: sum.splits)
      qed
    qed
  qed
qed

text \<open>
  When the event is not nested beyond what the log statement can serialise, a call of
  the function returns the envelope of that exit.
\<close>

lemma lambda_handler_call_returns:
  assumes "nesting (JObj event) \<le> limit"
  shows "lambda_handler_call limit w event = Inr (snd (lambda_handler_exit w event))"
  using assms
  by (simp add: lambda_handler_call_def log_event_def bind_exn_Inr lambda_handler_def)

lemma nesting_nested: "nesting (nested n) = Suc n"
  by (induction n) simp_all

text \<open>
  Claim C5.  The claim has the handler return an envelope for every event and never
  raise.  The log statement at line 139 stands before the \<^verbatim>\<open>try\<close> statement, so what
  it raises is caught by neither \<^verbatim>\<open>except\<close> clause: whatever nesting \<^verbatim>\<open>json.dumps\<close>
  can serialise there, the event whose body is the empty list inside that many lists is
  nested two levels deeper, and the call of the function ends with
  \<^verbatim>\<open>RecursionError\<close>, not with an envelope.
\<close>

theorem lambda_handler_raises_at_log:
  "nesting (JObj [(''body'', nested limit)]) = Suc (Suc limit) \<and>
   lambda_handler_call limit w [(''body'', nested limit)] =
     Inl (ExternalError ''RecursionError'')"
proof -
  have n: "nesting (JObj [(''body'', nested limit)]) = Suc (Suc limit)"
    by (simp add: nesting_nested)
  then have "log_event limit [(''body'', nested limit)] = Inl (ExternalError ''RecursionError'')"
    by (simp add: log_event_def)
  then have "lambda_handler_call limit w [(''body'', nested limit)] =
      Inl (ExternalError ''RecursionError'')"
    by (simp add: lambda_handler_call_def bind_exn_Inl)
  with n show ?thesis by simp
qed

section \<open>A body that is not JSON\<close>




section \<open>The preflight request\<close>



section \<open>Configuration\<close>

text \<open>
  Claim C8.  Each accessor of \<open>Config\<close> returns its default when its variable is not
  in the environment: region \<^verbatim>\<open>us-east-1\<close>, the default model identifier, 1000
  tokens, temperature 0.5, origin \<^verbatim>\<open>*\<close>, tag \<^verbatim>\<open>dev\<close>.  When \<^verbatim>\<open>MAX_TOKENS\<close> or
  \<^verbatim>\<open>TEMPERATURE\<close> is set to a text that \<^verbatim>\<open>int\<close> or \<^verbatim>\<open>float\<close> refuses, the
  accessor raises that error instead of returning the default, and
  \<open>generate_response\<close> raises it in turn.
\<close>

theorem config_defaults_and_failures:
  "(environ w ''AWS_REGION'' = None \<longrightarrow> get_aws_region w = ''us-east-1'') \<and>
   (environ w ''BEDROCK_MODEL_ID'' = None \<longrightarrow>
      get_bedrock_model_id w = ''anthropic.claude-3-haiku-20240307-v1:0'') \<and>
   (environ w ''MAX_TOKENS'' = None \<longrightarrow> get_max_tokens w = Inr 1000) \<and>
   (environ w ''TEMPERATURE'' = None \<longrightarrow> get_temperature w = Inr (FloatVal (1 / 2))) \<and>
   (environ w ''ALLOWED_ORIGINS'' = None \<longrightarrow> get_allowed_origins w = ''*'') \<and>
   (environ w ''ENVIRONMENT'' = None \<longrightarrow> get_environment w = ''dev'') \<and>
   (\<forall>s e. environ w ''MAX_TOKENS'' = Some s \<longrightarrow> py_int s = Inl e \<longrightarrow>
      get_max_tokens w = Inl e \<and> get_max_tokens w \<noteq> Inr 1000 \<and>
      generate_response w c prompt = Inl e) \<and>
   (\<forall>s e. environ w ''TEMPERATURE'' = Some s \<longrightarrow> py_float s = Inl e \<longrightarrow>
      get_temperature w = Inl e \<and> get_temperature w \<noteq> Inr (FloatVal (1 / 2)) \<and>
      (\<forall>n. get_max_tokens w = Inr n \<longrightarrow> generate_response w c prompt = Inl e))"
  by (simp add: get_aws_region_def get_bedrock_model_id_def get_max_tokens_def
      get_temperature_def get_allowed_origins_def get_environment_def environ_get_def
      py_int_1000 py_float_half generate_response_def generate_response_try_def
      bind_exn_Inl bind_exn_Inr)

theorem config_defaults_and_failures_witness:
  "get_aws_region bare_world = ''us-east-1'' \<and>
   get_max_tokens bare_world = Inr 1000 \<and>
   get_temperature bare_world = Inr (FloatVal (1 / 2)) \<and>
   get_allowed_origins bare_world = ''*'' \<and>
   get_environment bare_world = ''dev'' \<and>
   get_max_tokens (bare_world\<lparr>environ := [''MAX_TOKENS'' \<mapsto> ''abc'']\<rparr>) = Inl ValueError \<and>
   get_temperature (bare_world\<lparr>environ := [''TEMPERATURE'' \<mapsto> ''hot'']\<rparr>) = Inl ValueError"
  using config_defaults_and_failures [of bare_world]
    config_defaults_and_failures [of "bare_world\<lparr>environ := [''MAX_TOKENS'' \<mapsto> ''abc'']\<rparr>"]
    config_defaults_and_failures [of "bare_world\<lparr>environ := [''TEMPERATURE'' \<mapsto> ''hot'']\<rparr>"]
  by (simp add: bare_world_def py_int_abc py_float_hot)

section \<open>A body that is JSON but not an object\<close>





section \<open>A message that is not a string\<close>




section \<open>The scenarios of the specification\<close>

text \<open>
  The end-to-end scenarios the specification lists, run in the world of the examples:
  an empty message is refused with status 400; a service call that fails ends in the
  500 envelope; an empty content list ends in status 200 with the apology.  (The first
  scenario, the successful request, is the example given with the successful request
  above.)
\<close>


lemma test_loads_empty_message:
  \<open>test_loads ''{"message": ""}'' = Inr (JObj [(''message'', JStr '''')])\<close>
  by (simp add: test_loads_def known_texts_def)

lemma test_loads_empty_content:
  \<open>test_loads ''{"content": []}'' = Inr (JObj [(''content'', JArr [])])\<close>
  by (simp add: test_loads_def known_texts_def)

lemma scenario_empty_message:
  \<open>lambda_handler test_world [(''body'', JStr ''{"message": ""}'')] =
     create_response test_world 400 (JObj [(''error'', JStr ''Message is required'')])\<close>
proof -
  have p: \<open>parse_body test_world [(''body'', JStr ''{"message": ""}'')] =
             Inr (JObj [(''message'', JStr '''')])\<close>
    by (simp add: parse_body_def json_loads_test_world test_loads_empty_message)
  have "handler_try test_world [(''body'', JStr ''{\"message\": \"\"}'')] =
          Inr (ValidationError,
               create_response test_world 400 (JObj [(''error'', JStr ''Message is required'')]))"
    by (simp add: handler_try_after_parse [OF _ p] validate_request_object bind_exn_Inr strip_Nil)
  then show ?thesis
    by (simp add: lambda_handler_def lambda_handler_of_try)
qed

lemma scenario_call_fails:
  \<open>lambda_handler
      (test_world\<lparr>invoke_model :=
         (\<lambda>region_name modelId request. Inl (ExternalError ''ClientError''))\<rparr>)
      [(''body'', JStr ''{"message": "What is photosynthesis?"}'')] =
    create_response test_world 500
      (JObj [(''error'', JStr ''Internal server error''), (''environment'', JStr ''test'')])\<close>
  using lambda_handler_inference_failure
          [OF _ parse_body_question, of "''What is photosynthesis?''"
             "\<lambda>region_name modelId request. Inl (ExternalError ''ClientError'')"
             "ExternalError ''ClientError''"]
  by (simp add: strip_question ask_chatbot_raises create_response_invoke test_environment)

lemma ask_chatbot_empty_content:
  \<open>ask_chatbot
     (test_world\<lparr>invoke_model := (\<lambda>region_name modelId request. Inr ''{"content": []}'')\<rparr>)
     msg = Inr (JStr fallback_text)\<close>
proof -
  let ?w = \<open>test_world\<lparr>invoke_model :=
              (\<lambda>region_name modelId request. Inr ''{"content": []}'')\<rparr>\<close>
  have l: "json_loads ?w = test_loads" by (simp add: test_world_def)
  have "generate_response ?w c p = Inr (JStr fallback_text)" for c p
  proof (rule generate_response_empty_content [OF test_max_tokens test_temperature])
    show \<open>invoke_model ?w (region c) (model_id c)
            (json_dumps ?w (request_payload 1000 (FloatVal (1 / 2)) p)) =
          Inr ''{"content": []}''\<close>
      by simp
    show \<open>json_loads ?w ''{"content": []}'' = Inr (JObj [(''content'', JArr [])])\<close>
      by (simp add: l test_loads_empty_content)
    show "subscript_str (JObj [(''content'', JArr [])]) ''content'' = Inr (JArr [])"
      by simp
  qed
  then show ?thesis
    by (simp add: ask_chatbot_def AcademicChatbot_init_def BedrockClient_init_def
        process_message_def bind_exn_Inr test_world_def)
qed

lemma scenario_empty_content:
  \<open>lambda_handler
      (test_world\<lparr>invoke_model := (\<lambda>region_name modelId request. Inr ''{"content": []}'')\<rparr>)
      [(''body'', JStr ''{"message": "What is photosynthesis?"}'')] =
    create_response test_world 200
      (JObj [(''response'', JStr fallback_text),
             (''environment'', JStr ''test''),
             (''model_used'', JStr ''anthropic.claude-3-haiku-20240307-v1:0'')])\<close>
  using lambda_handler_fallback
          [OF _ parse_body_question, of "''What is photosynthesis?''"
             \<open>\<lambda>region_name modelId request. Inr ''{"content": []}''\<close>]
  by (simp add: strip_question ask_chatbot_empty_content create_response_invoke
      success_body_def test_environment test_model_id)

end
